theory Spec2Isabelle
  imports Complex_Main
begin

section \<open>The Kokam NMC cell of SLIDE: construction and degradation selector\<close>

text \<open>
  This theory embeds the two constructors of \<^verbatim>\<open>Cell_KokamNMC\<close>
  (\<^verbatim>\<open>src/src/cell_KokamNMC.cpp\<close>) as HOL functions.

  Conventions of the embedding:
  \<^item> a C++ \<^verbatim>\<open>double\<close> is a \<open>real\<close>: rounding is not modelled, and a decimal
    literal such as \<^verbatim>\<open>8.5e-6\<close> is the rational \<open>8.5 / 10 ^ 6\<close>;
  \<^item> a C++ \<^verbatim>\<open>int\<close> is an \<open>int\<close>: the constructors only store and compare
    integers, and the loop counters stay below the selector's counts;
  \<^item> an exception thrown as an integer (\<^verbatim>\<open>throw 12\<close>) is the left injection
    of a sum, \<open>Inl 12\<close>; a constructor that throws yields no object;
  \<^item> a fixed-size C array is a list; reading it at or beyond its length is
    undefined behaviour in C++, and the theorems about the loops assume that
    the selector's counts stay within its arrays;
  \<^item> printing to \<^verbatim>\<open>std::cout\<close> is not modelled.
\<close>

subsection \<open>Parameter structures\<close>

text \<open>
  The fitting parameters of the surface-crack models, \<^verbatim>\<open>csparam\<close>; the fields
  are the ones the constructor assigns (lines 150 to 157).
\<close>

record CSparam =
  CS1alpha :: real
  CS2alpha :: real
  CS3alpha :: real
  CS4alpha :: real
  CS4Amax :: real
  CS5k :: real
  CS5k_T :: real
  CS_diffusion :: real

text \<open>The fitting parameters of the plating model, \<^verbatim>\<open>plparam\<close> (lines 170, 171).\<close>

record PLparam =
  pl1k :: real
  pl1k_T :: real

text \<open>
  The stress parameters, \<^verbatim>\<open>sparam\<close>. The constructors read and write the two
  activation flags; the other members of the structure are not named in the
  sources and live in the extension part of the record.
\<close>

record StressParam =
  s_dai :: bool
  s_lares :: bool

text \<open>
  The degradation selector \<^verbatim>\<open>DEG_ID\<close>, with the members the constructor
  assigns (lines 174 to 182). The three identifier arrays are lists, each with
  its count; the plating identifier is a single integer.
\<close>

record DEG_ID =
  SEI_id :: "int list"
  SEI_n :: int
  SEI_porosity :: int
  CS_id :: "int list"
  CS_n :: int
  CS_diffusion :: int
  LAM_id :: "int list"
  LAM_n :: int
  pl_id :: int

subsection \<open>State and discretisation model\<close>

type_synonym z_type = "real list"

text \<open>
  Modelled from the spec: the class \<^verbatim>\<open>State\<close> is not in the sources. The
  fields are those of the spec's PhysicalState (section 3), in the order of
  the arguments of \<^verbatim>\<open>State::initialise\<close> at line 121.
\<close>

record State =
  surfaceConcentrationProfile_pos :: z_type
  surfaceConcentrationProfile_neg :: z_type
  temperature :: real
  seiThickness :: real
  lostLithium :: real
  electrodeThickness_pos :: real
  electrodeThickness_neg :: real
  activeVolumeFraction_pos :: real
  activeVolumeFraction_neg :: real
  effectiveSurfaceArea_pos :: real
  effectiveSurfaceArea_neg :: real
  crackSurfaceArea :: real
  diffusionConstant_pos :: real
  diffusionConstant_neg :: real
  resistance :: real
  platedLithiumThickness :: real

text \<open>
  Modelled from the spec: the structure \<^verbatim>\<open>slide::Model\<close> is not in the
  sources. The spec's DiffusionModel supplies the discretisation order (the
  number of radial nodes) and linear operators; the operators are opaque here
  and live in the extension part of the record.
\<close>

record Model =
  discretizationOrder :: nat

subsection \<open>The cell\<close>

text \<open>
  The members of the cell that the constructor assigns, under the names of
  the source. The first eight fields hold the arguments that the constructor
  hands to the base class \<^verbatim>\<open>Cell\<close> (line 24): the names and the lengths of
  the two OCV curves and the two entropic-coefficient curves. The types of
  \<^verbatim>\<open>seiparam\<close> and \<^verbatim>\<open>lamparam\<close> are not in the sources and are type
  parameters.
\<close>

record ('sp, 'sei, 'lam, 'm) Cell =
  OCV_pos_name :: string
  OCV_pos_n :: int
  OCV_neg_name :: string
  OCV_neg_n :: int
  dOCV_neg_name :: string
  dOCV_neg_n :: int
  dOCV_tot_name :: string
  dOCV_tot_n :: int
  verbose :: int
  Cmaxpos :: real
  Cmaxneg :: real
  C_elec :: real
  n :: real
  nomCapacity :: real
  Vmax :: real
  Vmin :: real
  Icell :: real
  dIcell :: real
  dt_I :: real
  T_ref :: real
  T_env :: real
  Qch :: real
  rho :: real
  Cp :: real
  L :: real
  Rp :: real
  Rn :: real
  SAV :: real
  elec_surf :: real
  sparam :: "'sp StressParam_scheme"
  kp :: real
  kp_T :: real
  kn :: real
  kn_T :: real
  Dp_T :: real
  Dn_T :: real
  M :: "'m Model_scheme"
  s_ini :: State
  s :: State
  nsei :: real
  alphasei :: real
  OCVsei :: real
  rhosei :: real
  Rsei :: real
  Vmain :: real
  Vsei :: real
  c_elec0 :: real
  seiparam :: 'sei
  csparam :: CSparam
  OCVnmc :: real
  lamparam :: 'lam
  npl :: real
  alphapl :: real
  OCVpl :: real
  rhopl :: real
  plparam :: PLparam
  deg_id :: DEG_ID

text \<open>
  The constants that the constructor reads from other files of the
  repository, taken as parameters:
  \<^item> \<open>namepos\<close>, \<open>nameneg\<close>, \<open>nameentropicC\<close>, \<open>nameentropicCell\<close>:
    \<^verbatim>\<open>settings::path::Kokam\<close>;
  \<^item> \<open>Kelvin\<close>: \<^verbatim>\<open>PhyConst::Kelvin\<close>;
  \<^item> \<open>StressParam_Kokam\<close>, \<open>SEIparam_Kokam\<close>, \<open>LAMparam_Kokam\<close>:
    \<^verbatim>\<open>settings::def_param\<close>.

  Modelled from the spec: the last four fields are constants that the missing
  functions \<^verbatim>\<open>checkModelparam\<close> and \<^verbatim>\<open>validState\<close> need. \<open>nch\<close> is the
  number of radial nodes of the cell's configured geometry, \<open>OCV_maxLength\<close>
  the maximum configured length of an OCV or entropic curve, \<open>Tmax\<close> the
  material-failure ceiling of the temperature, and \<open>InvalidStateError\<close> the
  integer that a failed validation throws.
\<close>

record ('sp, 'sei, 'lam) settings =
  namepos :: string
  nameneg :: string
  nameentropicC :: string
  nameentropicCell :: string
  Kelvin :: real
  StressParam_Kokam :: "'sp StressParam_scheme"
  SEIparam_Kokam :: 'sei
  LAMparam_Kokam :: 'lam
  nch :: nat
  OCV_maxLength :: int
  Tmax :: real
  InvalidStateError :: int

subsection \<open>The functions of the base class\<close>

text \<open>
  Modelled from the spec: the constructor of the base class \<^verbatim>\<open>Cell\<close> is not
  in the sources. It receives the names and lengths of the four curves
  (spec, section 6: the core only requires the lengths of the loaded curves);
  it is modelled as storing them. The argument \<open>mem\<close> is the object before
  construction.
\<close>

definition Cell_base ::
  "string \<Rightarrow> int \<Rightarrow> string \<Rightarrow> int \<Rightarrow> string \<Rightarrow> int \<Rightarrow> string \<Rightarrow> int \<Rightarrow>
   ('sp, 'sei, 'lam, 'm) Cell \<Rightarrow> ('sp, 'sei, 'lam, 'm) Cell" where
  "Cell_base np nposn nn nnegn nec necn ecell ecelln mem =
     mem\<lparr>OCV_pos_name := np, OCV_pos_n := nposn,
         OCV_neg_name := nn, OCV_neg_n := nnegn,
         dOCV_neg_name := nec, dOCV_neg_n := necn,
         dOCV_tot_name := ecell, dOCV_tot_n := ecelln\<rparr>"

text \<open>
  Modelled from the spec: the bound on the curves is not in the sources. Spec,
  sections 6 and 7: no OCV or entropic curve exceeds its maximum configured
  length.
\<close>

definition curves_fit :: "('sp, 'sei, 'lam) settings \<Rightarrow> ('sp, 'sei, 'lam, 'm) Cell \<Rightarrow> bool" where
  "curves_fit cfg c \<longleftrightarrow>
     OCV_pos_n c \<le> OCV_maxLength cfg \<and> OCV_neg_n c \<le> OCV_maxLength cfg \<and>
     dOCV_neg_n c \<le> OCV_maxLength cfg \<and> dOCV_tot_n c \<le> OCV_maxLength cfg"

text \<open>
  Modelled from the spec: \<^verbatim>\<open>Cell::checkModelparam\<close> is not in the sources.
  Spec, sections 4.2 and 7: the node count of the discretisation artifact must
  match the cell's configured geometry (DiscretizationMismatchError), and no
  OCV or entropic curve may exceed its maximum configured length
  (CurveLengthError). The integer codes are those of the constructor's
  documentation (lines 45 and 46): 110 for the matrices, 111 for the curves.
\<close>

definition checkModelparam ::
  "('sp, 'sei, 'lam) settings \<Rightarrow> ('sp, 'sei, 'lam, 'm) Cell \<Rightarrow> int + unit" where
  "checkModelparam cfg c =
     (if discretizationOrder (M c) = nch cfg
      then (if curves_fit cfg c then Inr () else Inl 111)
      else Inl 110)"

text \<open>
  Modelled from the spec: \<^verbatim>\<open>State::initialise\<close> is not in the sources. Spec,
  section 4.1: it sets every field. The failure on a value outside its bound
  that the spec attaches to the initialisation is, in the constructor, the
  call of \<^verbatim>\<open>validState\<close> right after it, whose catch block reports
  \<^verbatim>\<open>Error in State::initialise\<close> (lines 125 to 133).
\<close>

definition initialise ::
  "z_type \<Rightarrow> z_type \<Rightarrow> real \<Rightarrow> real \<Rightarrow> real \<Rightarrow> real \<Rightarrow> real \<Rightarrow> real \<Rightarrow> real \<Rightarrow>
   real \<Rightarrow> real \<Rightarrow> real \<Rightarrow> real \<Rightarrow> real \<Rightarrow> real \<Rightarrow> real \<Rightarrow> State" where
  "initialise zpi zni Ti deltai LLIi thickpi thickni epi eni api ani CSi Dpi Dni ri deltalii =
     \<lparr>surfaceConcentrationProfile_pos = zpi,
      surfaceConcentrationProfile_neg = zni,
      temperature = Ti,
      seiThickness = deltai,
      lostLithium = LLIi,
      electrodeThickness_pos = thickpi,
      electrodeThickness_neg = thickni,
      activeVolumeFraction_pos = epi,
      activeVolumeFraction_neg = eni,
      effectiveSurfaceArea_pos = api,
      effectiveSurfaceArea_neg = ani,
      crackSurfaceArea = CSi,
      diffusionConstant_pos = Dpi,
      diffusionConstant_neg = Dni,
      resistance = ri,
      platedLithiumThickness = deltalii\<rparr>"

text \<open>
  Modelled from the spec: the bounds of the state are not in the sources.
  Spec, section 3: the temperature exceeds absolute zero and stays below a
  ceiling; the SEI thickness is strictly positive; the lost lithium, the crack
  surface and the plated-lithium thickness are non-negative; thicknesses,
  volume fractions, effective surface areas, diffusion constants and the
  resistance are positive; both profiles have the length of the
  discretisation order.
\<close>

definition state_in_bounds :: "real \<Rightarrow> nat \<Rightarrow> State \<Rightarrow> bool" where
  "state_in_bounds tmax nodes st \<longleftrightarrow>
     length (surfaceConcentrationProfile_pos st) = nodes \<and>
     length (surfaceConcentrationProfile_neg st) = nodes \<and>
     0 < temperature st \<and> temperature st < tmax \<and>
     0 < seiThickness st \<and>
     0 \<le> lostLithium st \<and>
     0 < electrodeThickness_pos st \<and> 0 < electrodeThickness_neg st \<and>
     0 < activeVolumeFraction_pos st \<and> 0 < activeVolumeFraction_neg st \<and>
     0 < effectiveSurfaceArea_pos st \<and> 0 < effectiveSurfaceArea_neg st \<and>
     0 \<le> crackSurfaceArea st \<and>
     0 < diffusionConstant_pos st \<and> 0 < diffusionConstant_neg st \<and>
     0 < resistance st \<and>
     0 \<le> platedLithiumThickness st"

text \<open>
  Modelled from the spec: \<^verbatim>\<open>Cell::validState\<close> is not in the sources. Spec,
  sections 4.1 and 7: it checks every bound of the state again and fails with
  an InvalidStateError, here a thrown integer, when one is violated.
\<close>

definition validState ::
  "('sp, 'sei, 'lam) settings \<Rightarrow> ('sp, 'sei, 'lam, 'm) Cell \<Rightarrow> int + unit" where
  "validState cfg c =
     (if state_in_bounds (Tmax cfg) (discretizationOrder (M c)) (s c)
      then Inr () else Inl (InvalidStateError cfg))"

text \<open>
  Modelled from the spec: \<^verbatim>\<open>Cell::setC\<close> is not in the sources. Spec, section
  4.1: it fills both concentration profiles uniformly with the lithium
  fraction times the respective maximum concentration.
\<close>

definition setC ::
  "real \<Rightarrow> real \<Rightarrow> ('sp, 'sei, 'lam, 'm) Cell \<Rightarrow> ('sp, 'sei, 'lam, 'm) Cell" where
  "setC cp0 cn0 c =
     c\<lparr>s := (s c)\<lparr>
       surfaceConcentrationProfile_pos :=
         map (\<lambda>_. cp0 * Cmaxpos c) (surfaceConcentrationProfile_pos (s c)),
       surfaceConcentrationProfile_neg :=
         map (\<lambda>_. cn0 * Cmaxneg c) (surfaceConcentrationProfile_neg (s c))\<rparr>\<rparr>"

text \<open>
  \<^verbatim>\<open>Cell::getAnodeSurface\<close> is not in the sources either, and the spec does
  not describe it. It is modelled from the comment at line 114, which gives
  the real surface area as the product of the effective surface area with the
  electrode volume (electrode surface times thickness). Only the parameter
  \<^verbatim>\<open>csparam.CS4Amax\<close> depends on it.
\<close>

definition getAnodeSurface :: "('sp, 'sei, 'lam, 'm) Cell \<Rightarrow> real" where
  "getAnodeSurface c =
     effectiveSurfaceArea_neg (s c) * electrodeThickness_neg (s c) * elec_surf c"

subsection \<open>The standard constructor\<close>

text \<open>
  Lines 49 to 93: the verbosity, the maximum concentrations, the cell, thermal
  and geometric parameters, the stress parameters and the rate constants of the
  main reaction.
\<close>

definition cell_parameters ::
  "('sp, 'sei, 'lam) settings \<Rightarrow> int \<Rightarrow> ('sp, 'sei, 'lam, 'm) Cell \<Rightarrow> ('sp, 'sei, 'lam, 'm) Cell" where
  "cell_parameters cfg verbosei c =
     c\<lparr>verbose := verbosei,
       Cmaxpos := 51385,
       Cmaxneg := 30555,
       C_elec := 1000,
       n := 1,
       nomCapacity := 2.7,
       Vmax := 4.2,
       Vmin := 2.7,
       Icell := 0,
       dIcell := 1.0,
       dt_I := 1 / 10 ^ 2,
       T_ref := Kelvin cfg + 25,
       T_env := Kelvin cfg + 25,
       Qch := 90,
       rho := 1626,
       Cp := 750,
       L := 1.6850 / 10 ^ 4,
       Rp := 8.5 / 10 ^ 6,
       Rn := 1.25 / 10 ^ 5,
       SAV := 252.9915,
       elec_surf := 0.0982,
       sparam := StressParam_Kokam cfg,
       kp := 5 / 10 ^ 11,
       kp_T := 58000,
       kn := 1.7640 / 10 ^ 11,
       kn_T := 20000,
       Dp_T := 29000,
       Dn_T := 35000\<rparr>"

text \<open>
  Lines 100 to 121: the local variables of the initial state and the call of
  \<^verbatim>\<open>s_ini.initialise\<close>. The profiles \<open>up\<close> and \<open>un\<close> are declared without
  a value (line 100), so their content is an input of the model.
\<close>

definition initial_state :: "real \<Rightarrow> ('sp, 'sei, 'lam, 'm) Cell \<Rightarrow> z_type \<Rightarrow> z_type \<Rightarrow> State" where
  "initial_state kelvin c up un =
     (let Rdc = 0.0102;
          T = kelvin + 25;
          delta = 1 / 10 ^ 9;
          LLI = 0;
          thickp = 70 / 10 ^ 6;
          thickn = 73.5 / 10 ^ 6;
          ep = 0.5;
          en = 0.5;
          ap = 3 * ep / Rp c;
          an = 3 * en / Rn c;
          CS = 0.01 * an * elec_surf c * thickn;
          Dp = 8 / 10 ^ 14;
          Dn = 7 / 10 ^ 14;
          R = Rdc * ((thickp * ap * elec_surf c + thickn * an * elec_surf c) / 2);
          delta_pl = 0
      in initialise up un T delta LLI thickp thickn ep en ap an CS Dp Dn R delta_pl)"

text \<open>
  Lines 136 to 171: the parameters of the SEI, surface-crack, LAM and plating
  models.
\<close>

definition degradation_parameters ::
  "('sp, 'sei, 'lam) settings \<Rightarrow> ('sp, 'sei, 'lam, 'm) Cell \<Rightarrow> ('sp, 'sei, 'lam, 'm) Cell" where
  "degradation_parameters cfg c =
     c\<lparr>nsei := 1,
       alphasei := 1,
       OCVsei := 0.4,
       rhosei := 100 * 10 ^ 3,
       Rsei := 2037.4,
       Vmain := 13.0,
       Vsei := 64.39,
       c_elec0 := 4.541 / 1000,
       seiparam := SEIparam_Kokam cfg,
       csparam := (csparam c)\<lparr>
         CS1alpha := 4.25 / 10 ^ 5,
         CS2alpha := 6.3 / 10 ^ 7,
         CS3alpha := 2.31 / 10 ^ 16,
         CS4alpha := 4.3306 / 10 ^ 8,
         CS4Amax := 5 * getAnodeSurface c,
         CS5k := 1 / 10 ^ 18,
         CS5k_T := - 127040,
         CSparam.CS_diffusion := 2\<rparr>,
       OCVnmc := 4.1,
       lamparam := LAMparam_Kokam cfg,
       npl := 1,
       alphapl := 1,
       OCVpl := 0,
       rhopl := 10000 * 10 ^ 3,
       plparam := (plparam c)\<lparr>pl1k := 4.5 / 10 ^ 10, pl1k_T := - 2.014008 * 10 ^ 5\<rparr>\<rparr>"

text \<open>
  Lines 174 to 182: the identifiers of a cell without degradation. Each
  statement writes element 0 of an array or a scalar member of \<^verbatim>\<open>deg_id\<close>.
\<close>

definition no_degradation :: "DEG_ID \<Rightarrow> DEG_ID" where
  "no_degradation d =
     d\<lparr>SEI_id := (SEI_id d)[0 := 0],
       SEI_n := 1,
       SEI_porosity := 0,
       CS_id := (CS_id d)[0 := 0],
       CS_n := 1,
       DEG_ID.CS_diffusion := 0,
       LAM_id := (LAM_id d)[0 := 0],
       LAM_n := 1,
       pl_id := 0\<rparr>"

text \<open>
  The loop \<^verbatim>\<open>for (int i = 0; i < k; i++) flag = flag || ids[i] == tag;\<close>
  that occurs three times in each constructor, entered at counter \<open>i\<close>.
\<close>

function id_loop :: "int list \<Rightarrow> int \<Rightarrow> int \<Rightarrow> int \<Rightarrow> bool \<Rightarrow> bool" where
  "id_loop ids k tag i flag =
     (if i < k then id_loop ids k tag (i + 1) (flag \<or> ids ! nat i = tag) else flag)"
  by pat_completeness auto
termination
  by (relation "measure (\<lambda>(ids, k, tag, i, flag). nat (k - i))") auto

declare id_loop.simps [simp del]

text \<open>
  Lines 184 to 192, and again lines 207 to 215: the stress flags are updated
  from the selector held by the cell.
\<close>

definition stress_flags :: "('sp, 'sei, 'lam, 'm) Cell \<Rightarrow> ('sp, 'sei, 'lam, 'm) Cell" where
  "stress_flags c =
     (let d = deg_id c;
          dai1 = id_loop (CS_id d) (CS_n d) 2 0 (s_dai (sparam c));
          dai2 = id_loop (LAM_id d) (LAM_n d) 1 0 dai1;
          lares = id_loop (CS_id d) (CS_n d) 1 0 (s_lares (sparam c))
      in c\<lparr>sparam := (sparam c)\<lparr>s_dai := dai2, s_lares := lares\<rparr>\<rparr>)"

text \<open>
  The constructor \<^verbatim>\<open>Cell_KokamNMC(const slide::Model &MM, int verbosei)\<close>
  in three stages, cut at the two calls that can throw.

  Lines 24 to 96: the base class receives the curves, the parameters are set
  and the discretisation model is stored. This is the cell that
  \<^verbatim>\<open>checkModelparam\<close> inspects at line 97.
\<close>

definition at_checkModelparam ::
  "('sp, 'sei, 'lam) settings \<Rightarrow> ('sp, 'sei, 'lam, 'm) Cell \<Rightarrow> 'm Model_scheme \<Rightarrow> int \<Rightarrow>
   ('sp, 'sei, 'lam, 'm) Cell" where
  "at_checkModelparam cfg mem MM verbosei =
     (let c0 = Cell_base (namepos cfg) 49 (nameneg cfg) 63
                 (nameentropicC cfg) 11 (nameentropicCell cfg) 11 mem;
          c1 = cell_parameters cfg verbosei c0
      in c1\<lparr>M := MM\<rparr>)"

text \<open>
  Lines 100 to 122: the initial state is stored in \<^verbatim>\<open>s_ini\<close> and copied to
  \<^verbatim>\<open>s\<close>. This is the cell that \<^verbatim>\<open>validState\<close> inspects at line 127.
\<close>

definition at_validState ::
  "('sp, 'sei, 'lam) settings \<Rightarrow> ('sp, 'sei, 'lam, 'm) Cell \<Rightarrow> z_type \<Rightarrow> z_type \<Rightarrow>
   'm Model_scheme \<Rightarrow> int \<Rightarrow> ('sp, 'sei, 'lam, 'm) Cell" where
  "at_validState cfg mem up un MM verbosei =
     (let c2 = at_checkModelparam cfg mem MM verbosei;
          c3 = c2\<lparr>s_ini := initial_state (Kelvin cfg) c2 up un\<rparr>
      in c3\<lparr>s := s_ini c3\<rparr>)"

text \<open>
  Lines 136 to 192, after the call of \<^verbatim>\<open>setC\<close>: the degradation parameters,
  the default selector and the stress flags.
\<close>

definition after_setC ::
  "('sp, 'sei, 'lam) settings \<Rightarrow> ('sp, 'sei, 'lam, 'm) Cell \<Rightarrow> ('sp, 'sei, 'lam, 'm) Cell" where
  "after_setC cfg c5 =
     (let c6 = degradation_parameters cfg c5;
          c7 = c6\<lparr>deg_id := no_degradation (deg_id c6)\<rparr>
      in stress_flags c7)"

text \<open>
  Lines 134 to 192: the concentrations are set from the fractions \<^verbatim>\<open>fp\<close> and
  \<^verbatim>\<open>fn\<close> of lines 103 and 104, then the rest of the constructor runs.
\<close>

definition after_validState ::
  "('sp, 'sei, 'lam) settings \<Rightarrow> ('sp, 'sei, 'lam, 'm) Cell \<Rightarrow> ('sp, 'sei, 'lam, 'm) Cell" where
  "after_validState cfg c4 =
     (let fp = 0.689332;
          fn = 0.479283;
          c5 = setC fp fn c4
      in after_setC cfg c5)"

text \<open>
  The control flow of the constructor, with the two member functions that it
  calls at lines 127 and 134 as the arguments \<open>vs\<close> (for \<^verbatim>\<open>validState\<close>) and
  \<open>sc\<close> (for \<^verbatim>\<open>setC\<close>). The result is \<open>Inl e\<close> when the constructor throws
  \<open>e\<close> and \<open>Inr c\<close> when it returns the cell \<open>c\<close>.
  \<^item> Line 97: an exception of \<^verbatim>\<open>checkModelparam\<close> leaves the constructor as
    it is.
  \<^item> Lines 125 to 133: \<^verbatim>\<open>validState\<close> is called on the cell of line 122; an
    integer that it throws is caught and 12 is thrown instead.
  \<^item> Line 134: \<^verbatim>\<open>setC\<close> is called on the same cell, outside the
    \<^verbatim>\<open>try\<close> block, so an exception of it leaves the constructor as it is.
  \<^item> Lines 136 to 192 run on the cell that \<^verbatim>\<open>setC\<close> has changed.
\<close>

definition Cell_KokamNMC_calling ::
  "(('sp, 'sei, 'lam, 'm) Cell \<Rightarrow> int + unit) \<Rightarrow>
   (real \<Rightarrow> real \<Rightarrow> ('sp, 'sei, 'lam, 'm) Cell \<Rightarrow> int + ('sp, 'sei, 'lam, 'm) Cell) \<Rightarrow>
   ('sp, 'sei, 'lam) settings \<Rightarrow> ('sp, 'sei, 'lam, 'm) Cell \<Rightarrow> z_type \<Rightarrow> z_type \<Rightarrow>
   'm Model_scheme \<Rightarrow> int \<Rightarrow> int + ('sp, 'sei, 'lam, 'm) Cell" where
  "Cell_KokamNMC_calling vs sc cfg mem up un MM verbosei =
     (case checkModelparam cfg (at_checkModelparam cfg mem MM verbosei) of
        Inl e \<Rightarrow> Inl e
      | Inr _ \<Rightarrow>
          (case vs (at_validState cfg mem up un MM verbosei) of
             Inl e \<Rightarrow> Inl 12
           | Inr _ \<Rightarrow>
               (let fp = 0.689332;
                    fn = 0.479283
                in case sc fp fn (at_validState cfg mem up un MM verbosei) of
                     Inl e \<Rightarrow> Inl e
                   | Inr c5 \<Rightarrow> Inr (after_setC cfg c5))))"

text \<open>
  The constructor itself calls the two member functions of the cell:
  \<^verbatim>\<open>validState\<close>, and \<^verbatim>\<open>setC\<close>, which returns normally.
\<close>

definition Cell_KokamNMC ::
  "('sp, 'sei, 'lam) settings \<Rightarrow> ('sp, 'sei, 'lam, 'm) Cell \<Rightarrow> z_type \<Rightarrow> z_type \<Rightarrow>
   'm Model_scheme \<Rightarrow> int \<Rightarrow> int + ('sp, 'sei, 'lam, 'm) Cell" where
  "Cell_KokamNMC cfg mem up un MM verbosei =
     Cell_KokamNMC_calling (validState cfg) (\<lambda>cp0 cn0 c. Inr (setC cp0 cn0 c))
       cfg mem up un MM verbosei"

subsection \<open>The constructor with a degradation selector\<close>

text \<open>
  The constructor
  \<^verbatim>\<open>Cell_KokamNMC(const slide::Model &M, const DEG_ID &degid, int verbosei)\<close>
  delegates to the standard constructor, replaces the selector and updates the
  stress flags (lines 195 to 216).
\<close>

definition Cell_KokamNMC_degid ::
  "('sp, 'sei, 'lam) settings \<Rightarrow> ('sp, 'sei, 'lam, 'm) Cell \<Rightarrow> z_type \<Rightarrow> z_type \<Rightarrow>
   'm Model_scheme \<Rightarrow> DEG_ID \<Rightarrow> int \<Rightarrow> int + ('sp, 'sei, 'lam, 'm) Cell" where
  "Cell_KokamNMC_degid cfg mem up un MM degid verbosei =
     (case Cell_KokamNMC cfg mem up un MM verbosei of
        Inl e \<Rightarrow> Inl e
      | Inr c \<Rightarrow> Inr (stress_flags (c\<lparr>deg_id := degid\<rparr>)))"

subsection \<open>The selector in the words of the specification\<close>

text \<open>
  The identifiers of one category that are in use: the first \<open>k\<close> elements
  of the array, where \<open>k\<close> is the count of the category.
\<close>

definition selected :: "int list \<Rightarrow> int \<Rightarrow> int list" where
  "selected ids k = take (nat k) ids"

text \<open>
  The specification, section 4.3: the flag of Dai's stress model is needed iff
  some cracking identifier or some LAM identifier carries the tag of Dai's
  model (2 among the cracking models, 1 among the LAM models); the flag of
  Laresgoiti's model iff some cracking identifier carries its tag (1).
\<close>

definition needsDaiModel :: "DEG_ID \<Rightarrow> bool" where
  "needsDaiModel d \<longleftrightarrow>
     2 \<in> set (selected (CS_id d) (CS_n d)) \<or> 1 \<in> set (selected (LAM_id d) (LAM_n d))"

definition needsLaresgoitiModel :: "DEG_ID \<Rightarrow> bool" where
  "needsLaresgoitiModel d \<longleftrightarrow> 1 \<in> set (selected (CS_id d) (CS_n d))"

text \<open>
  Well-formedness of a selector for the loops of the constructors, which read
  the cracking and the LAM identifiers: neither count exceeds the length of
  its array.
\<close>

definition counts_within_arrays :: "DEG_ID \<Rightarrow> bool" where
  "counts_within_arrays d \<longleftrightarrow>
     nat (CS_n d) \<le> length (CS_id d) \<and> nat (LAM_n d) \<le> length (LAM_id d)"

text \<open>
  Every identifier array has at least its element 0, the one that lines 174,
  177 and 180 write.
\<close>

definition arrays_allocated :: "DEG_ID \<Rightarrow> bool" where
  "arrays_allocated d \<longleftrightarrow> SEI_id d \<noteq> [] \<and> CS_id d \<noteq> [] \<and> LAM_id d \<noteq> []"

subsection \<open>Example inputs\<close>

text \<open>
  Concrete inputs on which the theorems below are exercised. The settings are
  an illustration, not the values of the repository: five radial nodes, curves
  of at most 100 points, 273 for \<^verbatim>\<open>PhyConst::Kelvin\<close>, a ceiling of 333 K
  and stress parameters whose flags are off. The object before construction
  holds arbitrary values, the selector in it included.
\<close>

definition example_settings :: "(unit, unit, unit) settings" where
  "example_settings =
     \<lparr>namepos = ''OCV_pos.csv'', nameneg = ''OCV_neg.csv'',
      nameentropicC = ''entropic_C.csv'', nameentropicCell = ''entropic_cell.csv'',
      Kelvin = 273,
      StressParam_Kokam = \<lparr>s_dai = False, s_lares = False\<rparr>,
      SEIparam_Kokam = (), LAMparam_Kokam = (),
      nch = 5, OCV_maxLength = 100, Tmax = 333, InvalidStateError = 15\<rparr>"

definition example_Model :: "unit Model_scheme" where
  "example_Model = \<lparr>discretizationOrder = 5\<rparr>"

definition example_profile :: z_type where
  "example_profile = [3, 1, 4, 1, 5]"

definition example_State :: State where
  "example_State = initialise [] [] 0 0 0 0 0 0 0 0 0 0 0 0 0 0"

definition example_mem :: "(unit, unit, unit, unit) Cell" where
  "example_mem =
     \<lparr>OCV_pos_name = [], OCV_pos_n = 0, OCV_neg_name = [], OCV_neg_n = 0,
      dOCV_neg_name = [], dOCV_neg_n = 0, dOCV_tot_name = [], dOCV_tot_n = 0,
      verbose = 0, Cmaxpos = 0, Cmaxneg = 0, C_elec = 0, n = 0, nomCapacity = 0,
      Vmax = 0, Vmin = 0, Icell = 0, dIcell = 0, dt_I = 0, T_ref = 0, T_env = 0,
      Qch = 0, rho = 0, Cp = 0, L = 0, Rp = 0, Rn = 0, SAV = 0, elec_surf = 0,
      sparam = \<lparr>s_dai = True, s_lares = True\<rparr>,
      kp = 0, kp_T = 0, kn = 0, kn_T = 0, Dp_T = 0, Dn_T = 0,
      M = \<lparr>discretizationOrder = 0\<rparr>,
      s_ini = example_State, s = example_State,
      nsei = 0, alphasei = 0, OCVsei = 0, rhosei = 0, Rsei = 0, Vmain = 0, Vsei = 0,
      c_elec0 = 0, seiparam = (),
      csparam = \<lparr>CS1alpha = 0, CS2alpha = 0, CS3alpha = 0, CS4alpha = 0, CS4Amax = 0,
                 CS5k = 0, CS5k_T = 0, CS_diffusion = 0\<rparr>,
      OCVnmc = 0, lamparam = (), npl = 0, alphapl = 0, OCVpl = 0, rhopl = 0,
      plparam = \<lparr>pl1k = 0, pl1k_T = 0\<rparr>,
      deg_id = \<lparr>SEI_id = [7, 7, 7], SEI_n = 3, SEI_porosity = 7,
                CS_id = [2, 1, 2], CS_n = 3, CS_diffusion = 7,
                LAM_id = [1, 1, 1], LAM_n = 3, pl_id = 7\<rparr>\<rparr>"

text \<open>
  A selector with one SEI model, the cracking model that needs Dai's stress
  model, no LAM and one plating model.
\<close>

definition example_degid :: DEG_ID where
  "example_degid =
     \<lparr>SEI_id = [1, 0, 0], SEI_n = 1, SEI_porosity = 0,
      CS_id = [2, 0, 0], CS_n = 1, CS_diffusion = 0,
      LAM_id = [0, 0, 0], LAM_n = 1, pl_id = 1\<rparr>"

text \<open>
  A second validator, to run the control flow of the constructor with a
  callee that tells the cell of line 122 from the finished one: on top of the
  bounds of \<open>validState\<close> it rejects a cathode profile that holds a
  concentration above the given bound. It is an example, not a function of
  the repository.
\<close>

definition example_validState ::
  "('sp, 'sei, 'lam) settings \<Rightarrow> real \<Rightarrow> ('sp, 'sei, 'lam, 'm) Cell \<Rightarrow> int + unit" where
  "example_validState cfg cmax c =
     (if list_all (\<lambda>x. x \<le> cmax) (surfaceConcentrationProfile_pos (s c))
      then validState cfg c else Inl (InvalidStateError cfg))"

section \<open>Properties of the constructors\<close>

subsection \<open>The identifier loop\<close>

text \<open>
  Entered at a counter \<open>i\<close>, the loop returns the incoming flag or-ed with
  the comparisons at the counters from \<open>i\<close> up to the count.
\<close>

lemma id_loop_from:
  "0 \<le> i \<Longrightarrow> id_loop ids k tag i flag \<longleftrightarrow> flag \<or> (\<exists>j. i \<le> j \<and> j < k \<and> ids ! nat j = tag)"
proof (induction ids k tag i flag rule: id_loop.induct)
  case (1 ids k tag i flag)
  show ?case
  proof (cases "i < k")
    case True
    have "(\<exists>j. i \<le> j \<and> j < k \<and> ids ! nat j = tag) \<longleftrightarrow>
          ids ! nat i = tag \<or> (\<exists>j. i + 1 \<le> j \<and> j < k \<and> ids ! nat j = tag)"
      using True by (metis add1_zle_eq order_le_less)
    with True "1.IH" "1.prems" show ?thesis
      by (subst id_loop.simps) auto
  next
    case False
    then show ?thesis by (subst id_loop.simps) auto
  qed
qed

lemma id_loop_take:
  assumes "nat k \<le> length ids"
  shows "id_loop ids k tag 0 flag \<longleftrightarrow> flag \<or> tag \<in> set (take (nat k) ids)"
proof -
  have "(\<exists>j. 0 \<le> j \<and> j < k \<and> ids ! nat j = tag) \<longleftrightarrow> (\<exists>m < nat k. ids ! m = tag)"
  proof
    assume "\<exists>j. 0 \<le> j \<and> j < k \<and> ids ! nat j = tag"
    then obtain j where "0 \<le> j" "j < k" "ids ! nat j = tag" by blast
    then have "nat j < nat k" by simp
    with \<open>ids ! nat j = tag\<close> show "\<exists>m < nat k. ids ! m = tag" by blast
  next
    assume "\<exists>m < nat k. ids ! m = tag"
    then obtain m where "m < nat k" "ids ! m = tag" by blast
    then have "0 \<le> int m \<and> int m < k \<and> ids ! nat (int m) = tag" by simp
    then show "\<exists>j. 0 \<le> j \<and> j < k \<and> ids ! nat j = tag" by blast
  qed
  also have "\<dots> \<longleftrightarrow> tag \<in> set (take (nat k) ids)"
    using assms by (auto simp: in_set_conv_nth)
  finally show ?thesis by (simp add: id_loop_from)
qed

subsection \<open>When the constructors return a cell\<close>

lemma Cell_KokamNMC_unfold:
  "Cell_KokamNMC cfg mem up un MM v =
     (case checkModelparam cfg (at_checkModelparam cfg mem MM v) of
        Inl e \<Rightarrow> Inl e
      | Inr _ \<Rightarrow>
          (case validState cfg (at_validState cfg mem up un MM v) of
             Inl e \<Rightarrow> Inl 12
           | Inr _ \<Rightarrow> Inr (after_validState cfg (at_validState cfg mem up un MM v))))"
  by (simp add: Cell_KokamNMC_def Cell_KokamNMC_calling_def after_validState_def Let_def
      split: sum.splits)

lemma Cell_KokamNMC_Inr_iff:
  "Cell_KokamNMC cfg mem up un MM v = Inr c \<longleftrightarrow>
     checkModelparam cfg (at_checkModelparam cfg mem MM v) = Inr () \<and>
     validState cfg (at_validState cfg mem up un MM v) = Inr () \<and>
     c = after_validState cfg (at_validState cfg mem up un MM v)"
  by (auto simp: Cell_KokamNMC_unfold split: sum.splits)

lemma Cell_KokamNMC_degid_Inr_iff:
  "Cell_KokamNMC_degid cfg mem up un MM degid v = Inr c \<longleftrightarrow>
     (\<exists>c'. Cell_KokamNMC cfg mem up un MM v = Inr c' \<and> c = stress_flags (c'\<lparr>deg_id := degid\<rparr>))"
  by (auto simp: Cell_KokamNMC_degid_def split: sum.splits)

subsection \<open>Stress flags and the default selector\<close>

lemma stress_flags_sparam:
  assumes "counts_within_arrays (deg_id c)"
  shows "s_dai (sparam (stress_flags c)) \<longleftrightarrow> s_dai (sparam c) \<or> needsDaiModel (deg_id c)"
    and "s_lares (sparam (stress_flags c)) \<longleftrightarrow> s_lares (sparam c) \<or> needsLaresgoitiModel (deg_id c)"
  using assms
  by (auto simp: stress_flags_def Let_def counts_within_arrays_def needsDaiModel_def
      needsLaresgoitiModel_def selected_def id_loop_take)

lemma stress_flags_deg_id: "deg_id (stress_flags c) = deg_id c"
  by (simp add: stress_flags_def Let_def)

lemma no_degradation_fields:
  "SEI_n (no_degradation d) = 1" "SEI_porosity (no_degradation d) = 0"
  "CS_n (no_degradation d) = 1" "DEG_ID.CS_diffusion (no_degradation d) = 0"
  "LAM_n (no_degradation d) = 1" "pl_id (no_degradation d) = 0"
  "SEI_id (no_degradation d) = (SEI_id d)[0 := 0]"
  "CS_id (no_degradation d) = (CS_id d)[0 := 0]"
  "LAM_id (no_degradation d) = (LAM_id d)[0 := 0]"
  by (simp_all add: no_degradation_def)

lemma selected_no_degradation:
  assumes "arrays_allocated d"
  shows "selected (SEI_id (no_degradation d)) (SEI_n (no_degradation d)) = [0]"
    and "selected (CS_id (no_degradation d)) (CS_n (no_degradation d)) = [0]"
    and "selected (LAM_id (no_degradation d)) (LAM_n (no_degradation d)) = [0]"
  using assms
  by (cases "SEI_id d"; cases "CS_id d"; cases "LAM_id d";
      simp add: arrays_allocated_def selected_def no_degradation_fields)+

lemma no_degradation_within:
  "arrays_allocated d \<Longrightarrow> counts_within_arrays (no_degradation d)"
  by (cases "SEI_id d"; cases "CS_id d"; cases "LAM_id d";
      simp add: arrays_allocated_def counts_within_arrays_def no_degradation_fields)

lemma no_degradation_needs:
  assumes "arrays_allocated d"
  shows "\<not> needsDaiModel (no_degradation d)" "\<not> needsLaresgoitiModel (no_degradation d)"
  using selected_no_degradation [OF assms]
  by (simp_all add: needsDaiModel_def needsLaresgoitiModel_def)

subsection \<open>The members at each stage\<close>

lemma at_checkModelparam_fields:
  "M (at_checkModelparam cfg mem MM v) = MM"
  "OCV_pos_n (at_checkModelparam cfg mem MM v) = 49"
  "OCV_neg_n (at_checkModelparam cfg mem MM v) = 63"
  "dOCV_neg_n (at_checkModelparam cfg mem MM v) = 11"
  "dOCV_tot_n (at_checkModelparam cfg mem MM v) = 11"
  "Cmaxpos (at_checkModelparam cfg mem MM v) = 51385"
  "Cmaxneg (at_checkModelparam cfg mem MM v) = 30555"
  "Rp (at_checkModelparam cfg mem MM v) = 8.5 / 10 ^ 6"
  "Rn (at_checkModelparam cfg mem MM v) = 1.25 / 10 ^ 5"
  "elec_surf (at_checkModelparam cfg mem MM v) = 0.0982"
  "sparam (at_checkModelparam cfg mem MM v) = StressParam_Kokam cfg"
  "deg_id (at_checkModelparam cfg mem MM v) = deg_id mem"
  "verbose (at_checkModelparam cfg mem MM v) = v"
  by (simp_all add: at_checkModelparam_def cell_parameters_def Cell_base_def)

lemma at_validState_eq:
  "at_validState cfg mem up un MM v =
     (at_checkModelparam cfg mem MM v)\<lparr>
        s_ini := initial_state (Kelvin cfg) (at_checkModelparam cfg mem MM v) up un,
        s := initial_state (Kelvin cfg) (at_checkModelparam cfg mem MM v) up un\<rparr>"
  by (simp add: at_validState_def Let_def)

lemma after_setC_fields:
  "s (after_setC cfg c) = s c"
  "s_ini (after_setC cfg c) = s_ini c"
  "M (after_setC cfg c) = M c"
  "Cmaxpos (after_setC cfg c) = Cmaxpos c"
  "Cmaxneg (after_setC cfg c) = Cmaxneg c"
  by (simp_all add: after_setC_def Let_def stress_flags_def degradation_parameters_def)

lemma after_validState_fields:
  "s (after_validState cfg c) = s (setC 0.689332 0.479283 c)"
  "s_ini (after_validState cfg c) = s_ini c"
  "M (after_validState cfg c) = M c"
  "Cmaxpos (after_validState cfg c) = Cmaxpos c"
  "Cmaxneg (after_validState cfg c) = Cmaxneg c"
  "Rp (after_validState cfg c) = Rp c"
  "Rn (after_validState cfg c) = Rn c"
  "elec_surf (after_validState cfg c) = elec_surf c"
  "verbose (after_validState cfg c) = verbose c"
  "deg_id (after_validState cfg c) = no_degradation (deg_id c)"
  by (simp_all add: after_validState_def after_setC_def Let_def stress_flags_def degradation_parameters_def
      setC_def)

lemma after_validState_sparam:
  assumes "arrays_allocated (deg_id c)"
  shows "s_dai (sparam (after_validState cfg c)) = s_dai (sparam c)"
    and "s_lares (sparam (after_validState cfg c)) = s_lares (sparam c)"
proof -
  let ?c7 = "(degradation_parameters cfg (setC 0.689332 0.479283 c))
               \<lparr>deg_id := no_degradation (deg_id (degradation_parameters cfg (setC 0.689332 0.479283 c)))\<rparr>"
  have d: "deg_id ?c7 = no_degradation (deg_id c)"
    by (simp add: degradation_parameters_def setC_def)
  have sp: "sparam ?c7 = sparam c"
    by (simp add: degradation_parameters_def setC_def)
  have a: "after_validState cfg c = stress_flags ?c7"
    by (simp add: after_validState_def after_setC_def Let_def)
  have w: "counts_within_arrays (deg_id ?c7)"
    using assms d no_degradation_within by simp
  show "s_dai (sparam (after_validState cfg c)) = s_dai (sparam c)"
    using stress_flags_sparam(1) [OF w] no_degradation_needs(1) [OF assms] d sp a by simp
  show "s_lares (sparam (after_validState cfg c)) = s_lares (sparam c)"
    using stress_flags_sparam(2) [OF w] no_degradation_needs(2) [OF assms] d sp a by simp
qed

lemma initial_state_fields:
  "surfaceConcentrationProfile_pos (initial_state k c up un) = up"
  "surfaceConcentrationProfile_neg (initial_state k c up un) = un"
  "temperature (initial_state k c up un) = k + 25"
  "seiThickness (initial_state k c up un) = 1 / 10 ^ 9"
  "lostLithium (initial_state k c up un) = 0"
  "electrodeThickness_pos (initial_state k c up un) = 70 / 10 ^ 6"
  "electrodeThickness_neg (initial_state k c up un) = 73.5 / 10 ^ 6"
  "activeVolumeFraction_pos (initial_state k c up un) = 0.5"
  "activeVolumeFraction_neg (initial_state k c up un) = 0.5"
  "effectiveSurfaceArea_pos (initial_state k c up un) = 3 * 0.5 / Rp c"
  "effectiveSurfaceArea_neg (initial_state k c up un) = 3 * 0.5 / Rn c"
  "crackSurfaceArea (initial_state k c up un) =
     0.01 * (3 * 0.5 / Rn c) * elec_surf c * (73.5 / 10 ^ 6)"
  "diffusionConstant_pos (initial_state k c up un) = 8 / 10 ^ 14"
  "diffusionConstant_neg (initial_state k c up un) = 7 / 10 ^ 14"
  "resistance (initial_state k c up un) =
     0.0102 * ((70 / 10 ^ 6 * (3 * 0.5 / Rp c) * elec_surf c
                + 73.5 / 10 ^ 6 * (3 * 0.5 / Rn c) * elec_surf c) / 2)"
  "platedLithiumThickness (initial_state k c up un) = 0"
  by (simp_all add: initial_state_def initialise_def Let_def)

lemma at_validState_fields:
  "s (at_validState cfg mem up un MM v) =
     initial_state (Kelvin cfg) (at_checkModelparam cfg mem MM v) up un"
  "s_ini (at_validState cfg mem up un MM v) =
     initial_state (Kelvin cfg) (at_checkModelparam cfg mem MM v) up un"
  "M (at_validState cfg mem up un MM v) = MM"
  "Cmaxpos (at_validState cfg mem up un MM v) = 51385"
  "Cmaxneg (at_validState cfg mem up un MM v) = 30555"
  "Rp (at_validState cfg mem up un MM v) = 8.5 / 10 ^ 6"
  "Rn (at_validState cfg mem up un MM v) = 1.25 / 10 ^ 5"
  "elec_surf (at_validState cfg mem up un MM v) = 0.0982"
  "sparam (at_validState cfg mem up un MM v) = StressParam_Kokam cfg"
  "deg_id (at_validState cfg mem up un MM v) = deg_id mem"
  "verbose (at_validState cfg mem up un MM v) = v"
  by (simp_all add: at_validState_eq at_checkModelparam_fields)

subsection \<open>Validation at the two calls\<close>

lemma setC_state:
  "s (setC cp0 cn0 c) =
     (s c)\<lparr>surfaceConcentrationProfile_pos :=
              map (\<lambda>_. cp0 * Cmaxpos c) (surfaceConcentrationProfile_pos (s c)),
            surfaceConcentrationProfile_neg :=
              map (\<lambda>_. cn0 * Cmaxneg c) (surfaceConcentrationProfile_neg (s c))\<rparr>"
  by (simp add: setC_def)

lemma state_in_bounds_setC:
  "state_in_bounds tmax k (s (setC cp0 cn0 c)) \<longleftrightarrow> state_in_bounds tmax k (s c)"
  by (simp add: setC_state state_in_bounds_def)

lemma initial_state_in_bounds:
  "state_in_bounds tmax k (initial_state kelvin (at_checkModelparam cfg mem MM v) up un) \<longleftrightarrow>
     length up = k \<and> length un = k \<and> 0 < kelvin + 25 \<and> kelvin + 25 < tmax"
  by (simp add: state_in_bounds_def initial_state_fields at_checkModelparam_fields)

lemma checkModelparam_at:
  "checkModelparam cfg (at_checkModelparam cfg mem MM v) =
     (if discretizationOrder MM = nch cfg
      then (if 63 \<le> OCV_maxLength cfg then Inr () else Inl 111)
      else Inl 110)"
  by (simp add: checkModelparam_def curves_fit_def at_checkModelparam_fields)

lemma validState_at:
  "validState cfg (at_validState cfg mem up un MM v) =
     (if length up = discretizationOrder MM \<and> length un = discretizationOrder MM \<and>
         0 < Kelvin cfg + 25 \<and> Kelvin cfg + 25 < Tmax cfg
      then Inr () else Inl (InvalidStateError cfg))"
  by (simp add: validState_def at_validState_fields initial_state_in_bounds)

lemma validState_after:
  "validState cfg (after_validState cfg c) = validState cfg c"
  by (simp add: validState_def after_validState_fields state_in_bounds_setC)

subsection \<open>The verbosity commutes with every stage\<close>

lemma verbose_at_checkModelparam:
  "at_checkModelparam cfg mem MM v = (at_checkModelparam cfg mem MM w)\<lparr>verbose := v\<rparr>"
  by (simp add: at_checkModelparam_def cell_parameters_def Cell_base_def)

lemma verbose_initial_state:
  "initial_state k (c\<lparr>verbose := v\<rparr>) up un = initial_state k c up un"
  by (simp add: initial_state_def)

lemma verbose_at_validState:
  "at_validState cfg mem up un MM v = (at_validState cfg mem up un MM w)\<lparr>verbose := v\<rparr>"
  by (simp add: at_validState_def Let_def at_checkModelparam_def cell_parameters_def
      Cell_base_def initial_state_def)

lemma verbose_checkModelparam:
  "checkModelparam cfg (c\<lparr>verbose := v\<rparr>) = checkModelparam cfg c"
  by (simp add: checkModelparam_def curves_fit_def)

lemma verbose_validState:
  "validState cfg (c\<lparr>verbose := v\<rparr>) = validState cfg c"
  by (simp add: validState_def)

lemma verbose_stress_flags:
  "stress_flags (c\<lparr>verbose := v\<rparr>) = (stress_flags c)\<lparr>verbose := v\<rparr>"
  by (simp add: stress_flags_def Let_def)

lemma verbose_after_validState:
  "after_validState cfg (c\<lparr>verbose := v\<rparr>) = (after_validState cfg c)\<lparr>verbose := v\<rparr>"
  by (simp add: after_validState_def after_setC_def Let_def stress_flags_def degradation_parameters_def
      setC_def getAnodeSurface_def)

lemma verbose_Cell_KokamNMC:
  "Cell_KokamNMC cfg mem up un MM v =
     map_sum id (\<lambda>c. c\<lparr>verbose := v\<rparr>) (Cell_KokamNMC cfg mem up un MM w)"
proof -
  have "Cell_KokamNMC cfg mem up un MM v =
        (case checkModelparam cfg (at_checkModelparam cfg mem MM w) of
           Inl e \<Rightarrow> Inl e
         | Inr _ \<Rightarrow>
            (case validState cfg (at_validState cfg mem up un MM w) of
               Inl e \<Rightarrow> Inl 12
             | Inr _ \<Rightarrow> Inr ((after_validState cfg (at_validState cfg mem up un MM w))\<lparr>verbose := v\<rparr>)))"
    unfolding Cell_KokamNMC_unfold
    by (subst verbose_at_checkModelparam [of _ _ _ v w],
        subst (1 2) verbose_at_validState [of _ _ _ _ _ v w])
       (simp only: verbose_checkModelparam verbose_validState verbose_after_validState)
  then show ?thesis
    by (simp add: Cell_KokamNMC_unfold split: sum.splits)
qed

lemma verbose_Cell_KokamNMC_degid:
  "Cell_KokamNMC_degid cfg mem up un MM degid v =
     map_sum id (\<lambda>c. c\<lparr>verbose := v\<rparr>) (Cell_KokamNMC_degid cfg mem up un MM degid w)"
proof -
  have "stress_flags (c\<lparr>verbose := v, deg_id := degid\<rparr>) =
        (stress_flags (c\<lparr>deg_id := degid\<rparr>))\<lparr>verbose := v\<rparr>" for c :: "('a, 'b, 'c, 'd) Cell"
    by (simp add: stress_flags_def Let_def)
  then show ?thesis
    unfolding Cell_KokamNMC_degid_def
    by (subst verbose_Cell_KokamNMC [of _ _ _ _ _ v w]) (simp split: sum.splits)
qed

subsection \<open>The example inputs\<close>

lemma example_constructs:
  "Cell_KokamNMC example_settings example_mem example_profile example_profile example_Model v =
     Inr (after_validState example_settings
            (at_validState example_settings example_mem example_profile example_profile
               example_Model v))"
  by (simp add: Cell_KokamNMC_unfold checkModelparam_at validState_at example_settings_def
      example_Model_def example_profile_def)

lemma example_mem_allocated: "arrays_allocated (deg_id example_mem)"
  by (simp add: arrays_allocated_def example_mem_def)

lemma example_degid_within: "counts_within_arrays example_degid"
  by (simp add: counts_within_arrays_def example_degid_def)

section \<open>The claims\<close>

text \<open>
  C1. After a construction by either constructor, the flag \<^verbatim>\<open>s_dai\<close> holds
  iff some cracking identifier in use equals 2 or some LAM identifier in use
  equals 1, and the flag \<^verbatim>\<open>s_lares\<close> holds iff some cracking identifier in
  use equals 1; the standard constructor, whose selector is the default one,
  leaves both flags off. The constant \<^verbatim>\<open>StressParam_Kokam\<close>, from which
  \<^verbatim>\<open>sparam\<close> starts, is not in the sources: its two flags are assumed off.
  The counts of the supplied selector stay within its arrays.
\<close>

theorem stress_flags_follow_selector:
  assumes "\<not> s_dai (StressParam_Kokam cfg)" and "\<not> s_lares (StressParam_Kokam cfg)"
    and "arrays_allocated (deg_id mem)" and "counts_within_arrays degid"
  shows "(Cell_KokamNMC cfg mem up un MM v = Inr c \<longrightarrow>
            (s_dai (sparam c) \<longleftrightarrow> needsDaiModel (deg_id c)) \<and>
            (s_lares (sparam c) \<longleftrightarrow> needsLaresgoitiModel (deg_id c)) \<and>
            \<not> s_dai (sparam c) \<and> \<not> s_lares (sparam c)) \<and>
         (Cell_KokamNMC_degid cfg mem up un MM degid v = Inr c' \<longrightarrow>
            deg_id c' = degid \<and>
            (s_dai (sparam c') \<longleftrightarrow> needsDaiModel degid) \<and>
            (s_lares (sparam c') \<longleftrightarrow> needsLaresgoitiModel degid))"
proof (intro conjI impI)
  let ?c4 = "at_validState cfg mem up un MM v"
  have alloc: "arrays_allocated (deg_id ?c4)"
    using assms(3) by (simp add: at_validState_fields)
  have off: "\<not> s_dai (sparam (after_validState cfg ?c4))"
            "\<not> s_lares (sparam (after_validState cfg ?c4))"
    using assms(1,2) after_validState_sparam [OF alloc, of cfg]
    by (simp_all add: at_validState_fields)
  have dflt: "\<not> needsDaiModel (deg_id (after_validState cfg ?c4))"
             "\<not> needsLaresgoitiModel (deg_id (after_validState cfg ?c4))"
    using no_degradation_needs [OF alloc] by (simp_all add: after_validState_fields)
  {
    assume "Cell_KokamNMC cfg mem up un MM v = Inr c"
    then have c: "c = after_validState cfg ?c4"
      by (simp add: Cell_KokamNMC_Inr_iff)
    show "s_dai (sparam c) \<longleftrightarrow> needsDaiModel (deg_id c)" using c off dflt by simp
    show "s_lares (sparam c) \<longleftrightarrow> needsLaresgoitiModel (deg_id c)" using c off dflt by simp
    show "\<not> s_dai (sparam c)" using c off by simp
    show "\<not> s_lares (sparam c)" using c off by simp
  }
  {
    assume "Cell_KokamNMC_degid cfg mem up un MM degid v = Inr c'"
    then have c': "c' = stress_flags ((after_validState cfg ?c4)\<lparr>deg_id := degid\<rparr>)"
      by (auto simp: Cell_KokamNMC_degid_Inr_iff Cell_KokamNMC_Inr_iff)
    have w: "counts_within_arrays (deg_id ((after_validState cfg ?c4)\<lparr>deg_id := degid\<rparr>))"
      using assms(4) by simp
    show "deg_id c' = degid" using c' by (simp add: stress_flags_deg_id)
    show "s_dai (sparam c') \<longleftrightarrow> needsDaiModel degid"
      using stress_flags_sparam(1) [OF w] off c' by simp
    show "s_lares (sparam c') \<longleftrightarrow> needsLaresgoitiModel degid"
      using stress_flags_sparam(2) [OF w] off c' by simp
  }
qed

text \<open>
  At the example inputs both constructors return a cell; the example selector
  turns the flag of Dai's model on and leaves the flag of Laresgoiti's model
  off.
\<close>

theorem stress_flags_follow_selector_witness:
  "\<not> s_dai (StressParam_Kokam example_settings) \<and>
   \<not> s_lares (StressParam_Kokam example_settings) \<and>
   arrays_allocated (deg_id example_mem) \<and> counts_within_arrays example_degid \<and>
   needsDaiModel example_degid \<and> \<not> needsLaresgoitiModel example_degid \<and>
   \<not> isl (Cell_KokamNMC_degid example_settings example_mem example_profile example_profile
           example_Model example_degid 1) \<and>
   s_dai (sparam (projr (Cell_KokamNMC_degid example_settings example_mem example_profile
           example_profile example_Model example_degid 1))) \<and>
   \<not> s_lares (sparam (projr (Cell_KokamNMC_degid example_settings example_mem example_profile
           example_profile example_Model example_degid 1))) \<and>
   \<not> isl (Cell_KokamNMC example_settings example_mem example_profile example_profile
           example_Model 1) \<and>
   \<not> s_dai (sparam (projr (Cell_KokamNMC example_settings example_mem example_profile
           example_profile example_Model 1)))"
proof -
  have h1: "\<not> s_dai (StressParam_Kokam example_settings)"
    and h2: "\<not> s_lares (StressParam_Kokam example_settings)"
    by (simp_all add: example_settings_def)
  have n: "needsDaiModel example_degid" "\<not> needsLaresgoitiModel example_degid"
    by (simp_all add: needsDaiModel_def needsLaresgoitiModel_def selected_def example_degid_def)
  obtain c where c: "Cell_KokamNMC example_settings example_mem example_profile example_profile
                       example_Model 1 = Inr c"
    using example_constructs by blast
  then obtain c' where c': "Cell_KokamNMC_degid example_settings example_mem example_profile
                       example_profile example_Model example_degid 1 = Inr c'"
    by (simp add: Cell_KokamNMC_degid_def)
  from stress_flags_follow_selector [OF h1 h2 example_mem_allocated example_degid_within,
      of example_profile example_profile example_Model 1 c c'] c c' n h1 h2
    example_mem_allocated example_degid_within
  show ?thesis by auto
qed

text \<open>
  C2. A cell returned by the standard constructor has the maximum
  concentrations 51385 and 30555, profiles filled with 0.689332 and 0.479283
  times these, the nominal geometry, and the resistance
  \<open>Rdc * (thickp * ap * elec_surf + thickn * an * elec_surf) / 2\<close> with
  \<open>Rdc = 0.0102\<close>; its state passes \<^verbatim>\<open>validState\<close>. The constructor does
  return a cell when the model has the configured node count, the curves fit,
  the two local profiles have that node count and the temperature
  \<open>Kelvin + 25\<close> lies between zero and the ceiling.
\<close>

theorem nominal_cell_resistance_and_validation:
  "(Cell_KokamNMC cfg mem up un MM v = Inr c \<longrightarrow>
      Cmaxpos c = 51385 \<and> Cmaxneg c = 30555 \<and>
      surfaceConcentrationProfile_pos (s c) = map (\<lambda>_. 0.689332 * 51385) up \<and>
      surfaceConcentrationProfile_neg (s c) = map (\<lambda>_. 0.479283 * 30555) un \<and>
      electrodeThickness_pos (s c) = 70 / 10 ^ 6 \<and>
      electrodeThickness_neg (s c) = 73.5 / 10 ^ 6 \<and>
      activeVolumeFraction_pos (s c) = 0.5 \<and> activeVolumeFraction_neg (s c) = 0.5 \<and>
      Rp c = 8.5 / 10 ^ 6 \<and> Rn c = 1.25 / 10 ^ 5 \<and> elec_surf c = 0.0982 \<and>
      effectiveSurfaceArea_pos (s c) = 3 * 0.5 / (8.5 / 10 ^ 6) \<and>
      effectiveSurfaceArea_neg (s c) = 3 * 0.5 / (1.25 / 10 ^ 5) \<and>
      resistance (s c) =
        0.0102 * (electrodeThickness_pos (s c) * effectiveSurfaceArea_pos (s c) * elec_surf c
                  + electrodeThickness_neg (s c) * effectiveSurfaceArea_neg (s c) * elec_surf c) / 2 \<and>
      validState cfg c = Inr ()) \<and>
   (discretizationOrder MM = nch cfg \<and> 63 \<le> OCV_maxLength cfg \<and>
    length up = nch cfg \<and> length un = nch cfg \<and>
    0 < Kelvin cfg + 25 \<and> Kelvin cfg + 25 < Tmax cfg \<longrightarrow>
      (\<exists>c'. Cell_KokamNMC cfg mem up un MM v = Inr c'))"
proof (intro conjI impI)
  let ?c4 = "at_validState cfg mem up un MM v"
  assume "Cell_KokamNMC cfg mem up un MM v = Inr c"
  then have ok: "validState cfg ?c4 = Inr ()" and c: "c = after_validState cfg ?c4"
    by (simp_all add: Cell_KokamNMC_Inr_iff)
  have st: "s c = (initial_state (Kelvin cfg) (at_checkModelparam cfg mem MM v) up un)\<lparr>
              surfaceConcentrationProfile_pos := map (\<lambda>_. 0.689332 * 51385) up,
              surfaceConcentrationProfile_neg := map (\<lambda>_. 0.479283 * 30555) un\<rparr>"
    by (simp add: c after_validState_fields setC_state at_validState_fields initial_state_fields)
  have par: "Cmaxpos c = 51385" "Cmaxneg c = 30555" "Rp c = 8.5 / 10 ^ 6"
    "Rn c = 1.25 / 10 ^ 5" "elec_surf c = 0.0982"
    by (simp_all add: c after_validState_fields at_validState_fields)
  show "Cmaxpos c = 51385" "Cmaxneg c = 30555" "Rp c = 8.5 / 10 ^ 6"
    "Rn c = 1.25 / 10 ^ 5" "elec_surf c = 0.0982"
    by (rule par)+
  show "validState cfg c = Inr ()"
    using ok by (simp add: c validState_after)
  show "surfaceConcentrationProfile_pos (s c) = map (\<lambda>_. 0.689332 * 51385) up"
    "surfaceConcentrationProfile_neg (s c) = map (\<lambda>_. 0.479283 * 30555) un"
    "electrodeThickness_pos (s c) = 70 / 10 ^ 6"
    "electrodeThickness_neg (s c) = 73.5 / 10 ^ 6"
    "activeVolumeFraction_pos (s c) = 0.5" "activeVolumeFraction_neg (s c) = 0.5"
    "effectiveSurfaceArea_pos (s c) = 3 * 0.5 / (8.5 / 10 ^ 6)"
    "effectiveSurfaceArea_neg (s c) = 3 * 0.5 / (1.25 / 10 ^ 5)"
    by (simp_all add: st initial_state_fields at_checkModelparam_fields)
  show "resistance (s c) =
        0.0102 * (electrodeThickness_pos (s c) * effectiveSurfaceArea_pos (s c) * elec_surf c
                  + electrodeThickness_neg (s c) * effectiveSurfaceArea_neg (s c) * elec_surf c) / 2"
    by (simp add: st par initial_state_fields at_checkModelparam_fields)
next
  assume "discretizationOrder MM = nch cfg \<and> 63 \<le> OCV_maxLength cfg \<and>
    length up = nch cfg \<and> length un = nch cfg \<and>
    0 < Kelvin cfg + 25 \<and> Kelvin cfg + 25 < Tmax cfg"
  then show "\<exists>c'. Cell_KokamNMC cfg mem up un MM v = Inr c'"
    by (simp add: Cell_KokamNMC_unfold checkModelparam_at validState_at)
qed

text \<open>
  The example inputs meet the conditions, so the constructor returns a cell;
  its resistance is 0.0106038324 and its state is valid.
\<close>

theorem nominal_cell_resistance_and_validation_witness:
  "discretizationOrder example_Model = nch example_settings \<and>
   63 \<le> OCV_maxLength example_settings \<and>
   length example_profile = nch example_settings \<and>
   0 < Kelvin example_settings + 25 \<and> Kelvin example_settings + 25 < Tmax example_settings \<and>
   \<not> isl (Cell_KokamNMC example_settings example_mem example_profile example_profile
           example_Model 1) \<and>
   resistance (s (projr (Cell_KokamNMC example_settings example_mem example_profile
           example_profile example_Model 1))) = 26509581 / 2500000000 \<and>
   validState example_settings (projr (Cell_KokamNMC example_settings example_mem
           example_profile example_profile example_Model 1)) = Inr ()"
proof -
  have h: "discretizationOrder example_Model = nch example_settings"
    "63 \<le> OCV_maxLength example_settings"
    "length example_profile = nch example_settings"
    "0 < Kelvin example_settings + 25" "Kelvin example_settings + 25 < Tmax example_settings"
    by (simp_all add: example_settings_def example_Model_def example_profile_def)
  note t = nominal_cell_resistance_and_validation [of example_settings example_mem
      example_profile example_profile example_Model 1]
  from t h obtain c where c: "Cell_KokamNMC example_settings example_mem example_profile
      example_profile example_Model 1 = Inr c"
    by blast
  from t [of c] c have r: "resistance (s c) =
      0.0102 * (electrodeThickness_pos (s c) * effectiveSurfaceArea_pos (s c) * elec_surf c
                + electrodeThickness_neg (s c) * effectiveSurfaceArea_neg (s c) * elec_surf c) / 2"
    by blast
  from t [of c] c have f: "electrodeThickness_pos (s c) = 70 / 10 ^ 6"
    "electrodeThickness_neg (s c) = 73.5 / 10 ^ 6"
    "effectiveSurfaceArea_pos (s c) = 3 * 0.5 / (8.5 / 10 ^ 6)"
    "effectiveSurfaceArea_neg (s c) = 3 * 0.5 / (1.25 / 10 ^ 5)"
    "elec_surf c = 0.0982"
    by blast+
  have "resistance (s c) = 26509581 / 2500000000"
    unfolding r f by simp
  moreover from t [of c] c have "validState example_settings c = Inr ()" by blast
  ultimately show ?thesis using h by (simp add: c)
qed

text \<open>
  C3. When a field of the initial state is outside its bound, both
  constructors throw and return no cell: the integer thrown by
  \<^verbatim>\<open>validState\<close> is caught and 12 is thrown instead, unless
  \<^verbatim>\<open>checkModelparam\<close> has thrown 110 or 111 before. No other outcome
  exists, so nothing is clamped or repaired.
\<close>

theorem invalid_initial_state_aborts_construction:
  assumes "\<not> state_in_bounds (Tmax cfg) (discretizationOrder MM)
               (s (at_validState cfg mem up un MM v))"
  shows "\<exists>e. Cell_KokamNMC cfg mem up un MM v = Inl e \<and>
             Cell_KokamNMC_degid cfg mem up un MM degid v = Inl e \<and>
             (e = 110 \<or> e = 111 \<or> e = 12) \<and>
             (checkModelparam cfg (at_checkModelparam cfg mem MM v) = Inr () \<longrightarrow> e = 12)"
proof -
  have bad: "validState cfg (at_validState cfg mem up un MM v) = Inl (InvalidStateError cfg)"
    using assms by (simp add: validState_def at_validState_fields)
  show ?thesis
  proof (cases "checkModelparam cfg (at_checkModelparam cfg mem MM v)")
    case (Inl e)
    then have "e = 110 \<or> e = 111"
      by (auto simp: checkModelparam_def split: if_splits)
    with Inl show ?thesis
      by (auto simp: Cell_KokamNMC_degid_def Cell_KokamNMC_unfold)
  next
    case (Inr u)
    with bad show ?thesis
      by (simp add: Cell_KokamNMC_degid_def Cell_KokamNMC_unfold)
  qed
qed

text \<open>
  With a ceiling of 290 K the initial temperature of 298 K is out of bounds,
  and both constructors throw 12.
\<close>

theorem invalid_initial_state_aborts_construction_witness:
  "\<not> state_in_bounds (Tmax (example_settings\<lparr>Tmax := 290\<rparr>)) (discretizationOrder example_Model)
       (s (at_validState (example_settings\<lparr>Tmax := 290\<rparr>) example_mem example_profile
             example_profile example_Model 1)) \<and>
   Cell_KokamNMC (example_settings\<lparr>Tmax := 290\<rparr>) example_mem example_profile
     example_profile example_Model 1 = Inl 12 \<and>
   Cell_KokamNMC_degid (example_settings\<lparr>Tmax := 290\<rparr>) example_mem example_profile
     example_profile example_Model example_degid 1 = Inl 12"
proof -
  let ?cfg = "example_settings\<lparr>Tmax := 290\<rparr>"
  have h: "\<not> state_in_bounds (Tmax ?cfg) (discretizationOrder example_Model)
       (s (at_validState ?cfg example_mem example_profile example_profile example_Model 1))"
    by (simp add: at_validState_fields initial_state_in_bounds example_settings_def)
  have ok: "checkModelparam ?cfg (at_checkModelparam ?cfg example_mem example_Model 1) = Inr ()"
    by (simp add: checkModelparam_at example_settings_def example_Model_def)
  from invalid_initial_state_aborts_construction [OF h, of example_degid] ok h
  show ?thesis by auto
qed

text \<open>
  C4. \<^verbatim>\<open>checkModelparam\<close> fails in two distinguishable ways during
  construction: with 110 when the node count of the discretisation model
  differs from the configured one, and with 111 when the node counts agree and
  a curve is longer than the maximum. A mismatch of the node count makes both
  constructors throw 110, never 111 and never the 12 of an invalid state.
\<close>

theorem checkModelparam_error_kinds:
  "(discretizationOrder MM \<noteq> nch cfg \<longrightarrow>
      checkModelparam cfg (at_checkModelparam cfg mem MM v) = Inl 110 \<and>
      Cell_KokamNMC cfg mem up un MM v = Inl 110 \<and>
      Cell_KokamNMC cfg mem up un MM v \<noteq> Inl 111 \<and>
      Cell_KokamNMC cfg mem up un MM v \<noteq> Inl 12 \<and>
      Cell_KokamNMC_degid cfg mem up un MM degid v = Inl 110) \<and>
   (discretizationOrder MM = nch cfg \<and> \<not> curves_fit cfg (at_checkModelparam cfg mem MM v) \<longrightarrow>
      checkModelparam cfg (at_checkModelparam cfg mem MM v) = Inl 111 \<and>
      Cell_KokamNMC cfg mem up un MM v = Inl 111 \<and>
      Cell_KokamNMC_degid cfg mem up un MM degid v = Inl 111) \<and>
   (discretizationOrder MM = nch cfg \<and> curves_fit cfg (at_checkModelparam cfg mem MM v) \<longrightarrow>
      checkModelparam cfg (at_checkModelparam cfg mem MM v) = Inr ())"
  by (simp add: checkModelparam_def at_checkModelparam_fields Cell_KokamNMC_unfold
      Cell_KokamNMC_degid_def)

text \<open>
  A model with four nodes against five configured ones gives 110; a maximum
  curve length of 50 against the curve of 63 points gives 111; the example
  inputs themselves pass the check.
\<close>

theorem checkModelparam_error_kinds_witness:
  "discretizationOrder (example_Model\<lparr>discretizationOrder := 4\<rparr>) \<noteq> nch example_settings \<and>
   Cell_KokamNMC example_settings example_mem example_profile example_profile
     (example_Model\<lparr>discretizationOrder := 4\<rparr>) 1 = Inl 110 \<and>
   discretizationOrder example_Model = nch (example_settings\<lparr>OCV_maxLength := 50\<rparr>) \<and>
   \<not> curves_fit (example_settings\<lparr>OCV_maxLength := 50\<rparr>)
       (at_checkModelparam (example_settings\<lparr>OCV_maxLength := 50\<rparr>) example_mem example_Model 1) \<and>
   Cell_KokamNMC (example_settings\<lparr>OCV_maxLength := 50\<rparr>) example_mem example_profile
     example_profile example_Model 1 = Inl 111 \<and>
   discretizationOrder example_Model = nch example_settings \<and>
   curves_fit example_settings (at_checkModelparam example_settings example_mem example_Model 1) \<and>
   checkModelparam example_settings
     (at_checkModelparam example_settings example_mem example_Model 1) = Inr ()"
proof -
  let ?M4 = "example_Model\<lparr>discretizationOrder := 4\<rparr>"
  let ?cfg = "example_settings\<lparr>OCV_maxLength := 50\<rparr>"
  have a: "discretizationOrder ?M4 \<noteq> nch example_settings"
    by (simp add: example_settings_def)
  have b: "discretizationOrder example_Model = nch ?cfg"
    "\<not> curves_fit ?cfg (at_checkModelparam ?cfg example_mem example_Model 1)"
    by (simp_all add: example_settings_def example_Model_def curves_fit_def
        at_checkModelparam_fields)
  have c: "discretizationOrder example_Model = nch example_settings"
    "curves_fit example_settings (at_checkModelparam example_settings example_mem example_Model 1)"
    by (simp_all add: example_settings_def example_Model_def curves_fit_def
        at_checkModelparam_fields)
  from a b c
    checkModelparam_error_kinds [of ?M4 example_settings example_mem 1 example_profile
      example_profile example_degid]
    checkModelparam_error_kinds [of example_Model ?cfg example_mem 1 example_profile
      example_profile example_degid]
    checkModelparam_error_kinds [of example_Model example_settings example_mem 1 example_profile
      example_profile example_degid]
  show ?thesis by blast
qed

text \<open>
  C6. The crack surface of a cell returned by the standard constructor is
  \<open>0.01 * an * elec_surf * thickn\<close>, one percent of the real anode surface,
  where \<open>an\<close> is the effective surface area of the anode; its value is
  0.00866124, and it is not negative.
\<close>

theorem initial_crack_surface:
  assumes "Cell_KokamNMC cfg mem up un MM v = Inr c"
  shows "crackSurfaceArea (s c) =
           0.01 * effectiveSurfaceArea_neg (s c) * elec_surf c * electrodeThickness_neg (s c) \<and>
         crackSurfaceArea (s c) = 0.00866124 \<and>
         0 \<le> crackSurfaceArea (s c)"
proof -
  from assms have c: "c = after_validState cfg (at_validState cfg mem up un MM v)"
    by (simp add: Cell_KokamNMC_Inr_iff)
  show ?thesis
    by (simp add: c after_validState_fields setC_state at_validState_fields
        initial_state_fields at_checkModelparam_fields)
qed

text \<open>The crack surface of the cell built from the example inputs.\<close>

theorem initial_crack_surface_witness:
  "\<not> isl (Cell_KokamNMC example_settings example_mem example_profile example_profile
           example_Model 1) \<and>
   crackSurfaceArea (s (projr (Cell_KokamNMC example_settings example_mem example_profile
           example_profile example_Model 1))) = 0.00866124"
proof -
  obtain c where c: "Cell_KokamNMC example_settings example_mem example_profile example_profile
                       example_Model 1 = Inr c"
    using example_constructs by blast
  from initial_crack_surface [OF c] have "crackSurfaceArea (s c) = 0.00866124" by blast
  then show ?thesis by (simp add: c)
qed

text \<open>
  C7. In a cell returned by the standard constructor the effective surface
  areas are three times the volume fraction over the particle radius,
  \<open>ap = 3 * ep / Rp\<close> and \<open>an = 3 * en / Rn\<close>, and both are strictly
  positive.
\<close>

theorem effective_surface_areas:
  assumes "Cell_KokamNMC cfg mem up un MM v = Inr c"
  shows "effectiveSurfaceArea_pos (s c) = 3 * activeVolumeFraction_pos (s c) / Rp c \<and>
         effectiveSurfaceArea_neg (s c) = 3 * activeVolumeFraction_neg (s c) / Rn c \<and>
         0 < effectiveSurfaceArea_pos (s c) \<and> 0 < effectiveSurfaceArea_neg (s c)"
proof -
  from assms have c: "c = after_validState cfg (at_validState cfg mem up un MM v)"
    by (simp add: Cell_KokamNMC_Inr_iff)
  show ?thesis
    by (simp add: c after_validState_fields setC_state at_validState_fields
        initial_state_fields at_checkModelparam_fields)
qed

text \<open>The effective surface areas of the cell built from the example inputs.\<close>

theorem effective_surface_areas_witness:
  "\<not> isl (Cell_KokamNMC example_settings example_mem example_profile example_profile
           example_Model 1) \<and>
   0 < effectiveSurfaceArea_pos (s (projr (Cell_KokamNMC example_settings example_mem
           example_profile example_profile example_Model 1))) \<and>
   0 < effectiveSurfaceArea_neg (s (projr (Cell_KokamNMC example_settings example_mem
           example_profile example_profile example_Model 1)))"
proof -
  obtain c where c: "Cell_KokamNMC example_settings example_mem example_profile example_profile
                       example_Model 1 = Inr c"
    using example_constructs by blast
  from effective_surface_areas [OF c]
  have "0 < effectiveSurfaceArea_pos (s c)" "0 < effectiveSurfaceArea_neg (s c)" by blast+
  then show ?thesis by (simp add: c)
qed

text \<open>
  C8. A cell returned by the standard constructor holds, in each of the SEI,
  cracking and LAM categories, the count 1 and the single identifier 0; its
  plating identifier, a scalar, is 0; and the two coupling flags
  \<^verbatim>\<open>SEI_porosity\<close> and \<^verbatim>\<open>CS_diffusion\<close> are 0.
\<close>

theorem default_selector_is_no_degradation:
  assumes "Cell_KokamNMC cfg mem up un MM v = Inr c" and "arrays_allocated (deg_id mem)"
  shows "selected (SEI_id (deg_id c)) (SEI_n (deg_id c)) = [0] \<and> SEI_n (deg_id c) = 1 \<and>
         selected (CS_id (deg_id c)) (CS_n (deg_id c)) = [0] \<and> CS_n (deg_id c) = 1 \<and>
         selected (LAM_id (deg_id c)) (LAM_n (deg_id c)) = [0] \<and> LAM_n (deg_id c) = 1 \<and>
         pl_id (deg_id c) = 0 \<and>
         SEI_porosity (deg_id c) = 0 \<and> DEG_ID.CS_diffusion (deg_id c) = 0"
proof -
  from assms(1) have c: "deg_id c = no_degradation (deg_id mem)"
    by (simp add: Cell_KokamNMC_Inr_iff after_validState_fields at_validState_fields)
  show ?thesis
    using selected_no_degradation [OF assms(2)] by (simp add: c no_degradation_fields)
qed

text \<open>
  The selector of the cell built from the example inputs: element 0 of each
  array and every scalar are overwritten, the other elements are kept.
\<close>

theorem default_selector_is_no_degradation_witness:
  "arrays_allocated (deg_id example_mem) \<and>
   \<not> isl (Cell_KokamNMC example_settings example_mem example_profile example_profile
           example_Model 1) \<and>
   deg_id (projr (Cell_KokamNMC example_settings example_mem example_profile example_profile
           example_Model 1)) =
     \<lparr>SEI_id = [0, 7, 7], SEI_n = 1, SEI_porosity = 0,
      CS_id = [0, 1, 2], CS_n = 1, CS_diffusion = 0,
      LAM_id = [0, 1, 1], LAM_n = 1, pl_id = 0\<rparr> \<and>
   selected (CS_id (deg_id (projr (Cell_KokamNMC example_settings example_mem example_profile
           example_profile example_Model 1))))
     (CS_n (deg_id (projr (Cell_KokamNMC example_settings example_mem example_profile
           example_profile example_Model 1)))) = [0]"
proof -
  obtain c where c: "Cell_KokamNMC example_settings example_mem example_profile example_profile
                       example_Model 1 = Inr c"
    using example_constructs by blast
  have d: "deg_id c = \<lparr>SEI_id = [0, 7, 7], SEI_n = 1, SEI_porosity = 0,
      CS_id = [0, 1, 2], CS_n = 1, CS_diffusion = 0,
      LAM_id = [0, 1, 1], LAM_n = 1, pl_id = 0\<rparr>"
    using c by (simp add: Cell_KokamNMC_Inr_iff after_validState_fields at_validState_fields
        no_degradation_def example_mem_def)
  from default_selector_is_no_degradation [OF c example_mem_allocated]
  have "selected (CS_id (deg_id c)) (CS_n (deg_id c)) = [0]" by blast
  with d example_mem_allocated show ?thesis by (simp add: c)
qed

text \<open>
  C9. For two verbosity levels \<open>v1\<close> and \<open>v2\<close> and the same other inputs,
  each constructor throws the same integer or returns cells that agree in the
  state and in every member other than the stored level \<^verbatim>\<open>verbose\<close>
  itself: setting that member to one value \<open>w\<close> makes the two results equal.
\<close>

theorem verbosity_is_only_stored:
  "map_sum id (\<lambda>c. c\<lparr>verbose := w\<rparr>) (Cell_KokamNMC cfg mem up un MM v1) =
   map_sum id (\<lambda>c. c\<lparr>verbose := w\<rparr>) (Cell_KokamNMC cfg mem up un MM v2) \<and>
   map_sum id s (Cell_KokamNMC cfg mem up un MM v1) =
   map_sum id s (Cell_KokamNMC cfg mem up un MM v2) \<and>
   map_sum id (\<lambda>c. c\<lparr>verbose := w\<rparr>) (Cell_KokamNMC_degid cfg mem up un MM degid v1) =
   map_sum id (\<lambda>c. c\<lparr>verbose := w\<rparr>) (Cell_KokamNMC_degid cfg mem up un MM degid v2) \<and>
   map_sum id s (Cell_KokamNMC_degid cfg mem up un MM degid v1) =
   map_sum id s (Cell_KokamNMC_degid cfg mem up un MM degid v2)"
proof -
  have a: "Cell_KokamNMC cfg mem up un MM v1 =
           map_sum id (\<lambda>c. c\<lparr>verbose := v1\<rparr>) (Cell_KokamNMC cfg mem up un MM v2)"
    by (rule verbose_Cell_KokamNMC)
  have b: "Cell_KokamNMC_degid cfg mem up un MM degid v1 =
           map_sum id (\<lambda>c. c\<lparr>verbose := v1\<rparr>) (Cell_KokamNMC_degid cfg mem up un MM degid v2)"
    by (rule verbose_Cell_KokamNMC_degid)
  show ?thesis
    by (simp add: a b sum.map_comp comp_def id_def)
qed

text \<open>
  C10. The standard constructor validates the cell before \<^verbatim>\<open>setC\<close> assigns
  the concentrations, and does not validate it afterwards. This is a property
  of the constructor whatever the two member functions compute, so it is
  stated for arbitrary \<open>vs\<close> in the place of \<^verbatim>\<open>validState\<close> and \<open>sc\<close> in
  the place of \<^verbatim>\<open>setC\<close>:
  \<^item> when the constructor returns a cell, \<open>vs\<close> has accepted the cell of line
    122, whose profiles are the local \<open>up\<close> and \<open>un\<close>, and the returned
    cell is built from what \<open>sc\<close> made of that cell;
  \<^item> when \<^verbatim>\<open>checkModelparam\<close> passes, \<open>vs\<close> accepts the cell of line 122
    and \<open>sc\<close> returns, the constructor returns, whatever \<open>vs\<close> would say
    about the cell that \<open>sc\<close> returned or about the finished cell;
  \<^item> when \<open>vs\<close> rejects the cell of line 122 the constructor throws 12,
    whatever \<open>sc\<close> is.

  The constructor of the cell is the instance with \<^verbatim>\<open>validState\<close> and
  \<^verbatim>\<open>setC\<close>. When it returns a cell, \<^verbatim>\<open>s_ini\<close> still holds the validated
  state, and the profiles of \<^verbatim>\<open>s\<close> are filled with the fraction times the
  maximum concentration.
\<close>

theorem validation_precedes_setC:
  "(Cell_KokamNMC_calling vs sc cfg mem up un MM v = Inr c \<longrightarrow>
      vs (at_validState cfg mem up un MM v) = Inr () \<and>
      surfaceConcentrationProfile_pos (s (at_validState cfg mem up un MM v)) = up \<and>
      surfaceConcentrationProfile_neg (s (at_validState cfg mem up un MM v)) = un \<and>
      (\<exists>c5. sc 0.689332 0.479283 (at_validState cfg mem up un MM v) = Inr c5 \<and>
            c = after_setC cfg c5)) \<and>
   (checkModelparam cfg (at_checkModelparam cfg mem MM v) = Inr () \<and>
    vs (at_validState cfg mem up un MM v) = Inr () \<and>
    sc 0.689332 0.479283 (at_validState cfg mem up un MM v) = Inr c5 \<longrightarrow>
      Cell_KokamNMC_calling vs sc cfg mem up un MM v = Inr (after_setC cfg c5)) \<and>
   (checkModelparam cfg (at_checkModelparam cfg mem MM v) = Inr () \<and>
    vs (at_validState cfg mem up un MM v) = Inl e \<longrightarrow>
      Cell_KokamNMC_calling vs sc cfg mem up un MM v = Inl 12) \<and>
   Cell_KokamNMC cfg mem up un MM v =
     Cell_KokamNMC_calling (validState cfg) (\<lambda>cp0 cn0 c. Inr (setC cp0 cn0 c))
       cfg mem up un MM v \<and>
   (Cell_KokamNMC cfg mem up un MM v = Inr c' \<longrightarrow>
      validState cfg (at_validState cfg mem up un MM v) = Inr () \<and>
      s_ini c' = s (at_validState cfg mem up un MM v) \<and>
      s c' = s (setC 0.689332 0.479283 (at_validState cfg mem up un MM v)) \<and>
      surfaceConcentrationProfile_pos (s c') = map (\<lambda>_. 0.689332 * Cmaxpos c') up \<and>
      surfaceConcentrationProfile_neg (s c') = map (\<lambda>_. 0.479283 * Cmaxneg c') un) \<and>
   (checkModelparam cfg (at_checkModelparam cfg mem MM v) = Inr () \<and>
    validState cfg (at_validState cfg mem up un MM v) = Inr () \<longrightarrow>
      Cell_KokamNMC cfg mem up un MM v =
        Inr (after_validState cfg (at_validState cfg mem up un MM v)))"
proof (intro conjI impI)
  let ?c4 = "at_validState cfg mem up un MM v"
  show "surfaceConcentrationProfile_pos (s ?c4) = up"
    "surfaceConcentrationProfile_neg (s ?c4) = un"
    by (simp_all add: at_validState_fields initial_state_fields)
  show "Cell_KokamNMC cfg mem up un MM v =
     Cell_KokamNMC_calling (validState cfg) (\<lambda>cp0 cn0 c. Inr (setC cp0 cn0 c))
       cfg mem up un MM v"
    by (simp add: Cell_KokamNMC_def)
  {
    assume r: "Cell_KokamNMC_calling vs sc cfg mem up un MM v = Inr c"
    then show "vs ?c4 = Inr ()"
      by (simp add: Cell_KokamNMC_calling_def Let_def split: sum.splits)
    from r show "\<exists>c5. sc 0.689332 0.479283 ?c4 = Inr c5 \<and> c = after_setC cfg c5"
      by (auto simp: Cell_KokamNMC_calling_def Let_def split: sum.splits)
  }
  {
    assume "checkModelparam cfg (at_checkModelparam cfg mem MM v) = Inr () \<and>
      vs ?c4 = Inr () \<and> sc 0.689332 0.479283 ?c4 = Inr c5"
    then show "Cell_KokamNMC_calling vs sc cfg mem up un MM v = Inr (after_setC cfg c5)"
      by (simp add: Cell_KokamNMC_calling_def Let_def)
  }
  {
    assume "checkModelparam cfg (at_checkModelparam cfg mem MM v) = Inr () \<and> vs ?c4 = Inl e"
    then show "Cell_KokamNMC_calling vs sc cfg mem up un MM v = Inl 12"
      by (simp add: Cell_KokamNMC_calling_def)
  }
  {
    assume "Cell_KokamNMC cfg mem up un MM v = Inr c'"
    then have ok: "validState cfg ?c4 = Inr ()" and c: "c' = after_validState cfg ?c4"
      by (simp_all add: Cell_KokamNMC_Inr_iff)
    show "validState cfg ?c4 = Inr ()" by (rule ok)
    show "s_ini c' = s ?c4"
      by (simp add: c after_validState_fields at_validState_fields)
    show "s c' = s (setC 0.689332 0.479283 ?c4)"
      by (simp add: c after_validState_fields)
    show "surfaceConcentrationProfile_pos (s c') = map (\<lambda>_. 0.689332 * Cmaxpos c') up"
      "surfaceConcentrationProfile_neg (s c') = map (\<lambda>_. 0.479283 * Cmaxneg c') un"
      by (simp_all add: c after_validState_fields setC_state at_validState_fields
          initial_state_fields)
  }
  {
    assume "checkModelparam cfg (at_checkModelparam cfg mem MM v) = Inr () \<and>
      validState cfg ?c4 = Inr ()"
    then show "Cell_KokamNMC cfg mem up un MM v = Inr (after_validState cfg ?c4)"
      by (simp add: Cell_KokamNMC_unfold)
  }
qed

text \<open>
  At the example inputs, with the validator that also bounds the cathode
  concentrations by 10: the cell of line 122, with the local profile, is
  accepted and the constructor returns a cell, although the validator rejects
  that cell, whose profile holds five times the value 0.689332 * 51385. The
  constructor of the cell keeps the local profile in \<^verbatim>\<open>s_ini\<close>.
\<close>

theorem validation_precedes_setC_witness:
  "checkModelparam example_settings
     (at_checkModelparam example_settings example_mem example_Model 1) = Inr () \<and>
   example_validState example_settings 10
     (at_validState example_settings example_mem example_profile example_profile
        example_Model 1) = Inr () \<and>
   \<not> isl (Cell_KokamNMC_calling (example_validState example_settings 10)
           (\<lambda>cp0 cn0 c. Inr (setC cp0 cn0 c))
           example_settings example_mem example_profile example_profile example_Model 1) \<and>
   example_validState example_settings 10
     (projr (Cell_KokamNMC_calling (example_validState example_settings 10)
           (\<lambda>cp0 cn0 c. Inr (setC cp0 cn0 c))
           example_settings example_mem example_profile example_profile example_Model 1)) =
     Inl 15 \<and>
   example_validState example_settings 2
     (at_validState example_settings example_mem example_profile example_profile
        example_Model 1) = Inl 15 \<and>
   Cell_KokamNMC_calling (example_validState example_settings 2)
     (\<lambda>cp0 cn0 c. Inr (setC cp0 cn0 c))
     example_settings example_mem example_profile example_profile example_Model 1 = Inl 12 \<and>
   validState example_settings
     (at_validState example_settings example_mem example_profile example_profile
        example_Model 1) = Inr () \<and>
   \<not> isl (Cell_KokamNMC example_settings example_mem example_profile example_profile
           example_Model 1) \<and>
   surfaceConcentrationProfile_pos (s_ini (projr (Cell_KokamNMC example_settings example_mem
      example_profile example_profile example_Model 1))) = [3, 1, 4, 1, 5] \<and>
   surfaceConcentrationProfile_pos (s (projr (Cell_KokamNMC example_settings example_mem
      example_profile example_profile example_Model 1))) =
     [0.689332 * 51385, 0.689332 * 51385, 0.689332 * 51385, 0.689332 * 51385,
      0.689332 * 51385]"
proof -
  let ?c4 = "at_validState example_settings example_mem example_profile example_profile
        example_Model 1"
  let ?vs = "example_validState example_settings 10 ::
               (unit, unit, unit, unit) Cell \<Rightarrow> int + unit"
  let ?vs2 = "example_validState example_settings 2 ::
               (unit, unit, unit, unit) Cell \<Rightarrow> int + unit"
  let ?sc = "\<lambda>cp0 cn0 (c :: (unit, unit, unit, unit) Cell).
               (Inr (setC cp0 cn0 c) :: int + (unit, unit, unit, unit) Cell)"
  let ?c5 = "setC 0.689332 0.479283 ?c4"
  have h1: "checkModelparam example_settings
     (at_checkModelparam example_settings example_mem example_Model 1) = Inr ()"
    by (simp add: checkModelparam_at example_settings_def example_Model_def)
  have h2: "validState example_settings ?c4 = Inr ()"
    by (simp add: validState_at example_settings_def example_Model_def example_profile_def)
  have p: "surfaceConcentrationProfile_pos (s ?c4) = example_profile"
    by (simp add: at_validState_fields initial_state_fields)
  have la: "list_all (\<lambda>x. x \<le> 10) example_profile" "\<not> list_all (\<lambda>x. x \<le> 2) example_profile"
    by (simp_all add: example_profile_def)
  have h3: "?vs ?c4 = Inr ()"
    by (simp add: example_validState_def p la h2)
  have h4: "?sc 0.689332 0.479283 ?c4 = Inr ?c5"
    by simp
  have ise: "InvalidStateError example_settings = 15"
    by (simp add: example_settings_def)
  have h5: "?vs2 ?c4 = Inl 15"
    by (simp add: example_validState_def p la ise)
  have q: "surfaceConcentrationProfile_pos (s (after_setC example_settings ?c5)) =
             map (\<lambda>_. 0.689332 * 51385) example_profile"
    by (simp add: after_setC_fields setC_state at_validState_fields initial_state_fields)
  have nl: "\<not> list_all (\<lambda>x. x \<le> 10) (map (\<lambda>_. 0.689332 * 51385 :: real) example_profile)"
    by (simp add: example_profile_def)
  have rej: "?vs (after_setC example_settings ?c5) = Inl 15"
    unfolding example_validState_def q using nl by (simp add: ise)
  note t = validation_precedes_setC [of _ _ example_settings example_mem example_profile
      example_profile example_Model 1]
  from t [of ?vs ?sc _ ?c5] h1 h3 h4
  have r: "Cell_KokamNMC_calling ?vs ?sc example_settings example_mem example_profile
      example_profile example_Model 1 = Inr (after_setC example_settings ?c5)"
    by blast
  from t [of ?vs2 ?sc _ _ 15] h1 h5
  have r2: "Cell_KokamNMC_calling ?vs2 ?sc example_settings example_mem example_profile
      example_profile example_Model 1 = Inl 12"
    by blast
  from t [of ?vs ?sc] h1 h2
  have c: "Cell_KokamNMC example_settings example_mem example_profile
      example_profile example_Model 1 = Inr (after_validState example_settings ?c4)"
    by blast
  from t [of ?vs ?sc _ _ _ "after_validState example_settings ?c4"] c
  have f: "s_ini (after_validState example_settings ?c4) = s ?c4"
    "surfaceConcentrationProfile_pos (s (after_validState example_settings ?c4)) =
       map (\<lambda>_. 0.689332 * Cmaxpos (after_validState example_settings ?c4)) example_profile"
    by blast+
  have g: "surfaceConcentrationProfile_pos (s ?c4) = [3, 1, 4, 1, 5]"
    by (simp add: at_validState_fields initial_state_fields example_profile_def)
  have k: "Cmaxpos (after_validState example_settings ?c4) = 51385"
    by (simp add: after_validState_fields at_validState_fields)
  show ?thesis
    unfolding r r2 c sum.sel sum.disc f k g
    using h1 h2 h3 h5 rej by (simp add: example_profile_def)
qed

end
